theory Spec2Isabelle
  imports Main
begin

section \<open>JavaScript values\<close>

text \<open>
  A JSON value, as \<open>JSON.parse\<close> and \<open>res.json()\<close> produce it. Numbers are IEEE
  doubles in JavaScript; their type is a parameter \<open>'n\<close> and nothing below
  computes with them. An object is its list of members; a parsed object has
  distinct keys.
\<close>

datatype 'n json =
    JNull
  | JBool bool
  | JNum 'n
  | JStr string
  | JArr "'n json list"
  | JObj "(string \<times> 'n json) list"

text \<open>
  A thrown or rejected value: an \<open>Error\<close> object with its \<open>message\<close>, or a
  plain string (\<open>reject('No video')\<close>), which has no \<open>message\<close> property.
\<close>

datatype thrown = Error string | StringValue string

text \<open>\<open>e?.message || d\<close>: the message when it is a non-empty string, else \<open>d\<close>.\<close>

fun message_or :: "thrown \<Rightarrow> string \<Rightarrow> string" where
  "message_or (Error m) d = (if m = [] then d else m)"
| "message_or (StringValue s) d = d"

section \<open>The analysis orchestrator: \<open>src/pages/api/reconstruct.ts\<close>\<close>

subsection \<open>Requests and \<open>parseForm\<close>\<close>

record upload_file =
  filepath :: string

text \<open>
  A request is its method and what formidable hands to the callback of
  \<open>form.parse\<close>: \<open>err\<close> (absent when \<open>None\<close>) and \<open>files\<close>, keyed by field
  name. formidable has written each file of \<open>files\<close> to temporary storage.
\<close>

record request =
  "method" :: string
  form_err :: "thrown option"
  form_files :: "string \<rightharpoonup> upload_file"

text \<open>The promise of \<open>parseForm\<close>: \<open>Inl\<close> is a rejection, \<open>Inr\<close> the file path.\<close>

definition parseForm :: "request \<Rightarrow> thrown + string" where
  "parseForm req =
     (case form_err req of
        Some e \<Rightarrow> Inl e
      | None \<Rightarrow>
          (case form_files req ''image'' of
             None \<Rightarrow> Inl (Error ''image missing'')
           | Some file \<Rightarrow> Inr (filepath file)))"

subsection \<open>Effects and the state of one job\<close>

text \<open>
  What the handler does to the outside, in order: a call of \<open>spawn\<close> with the
  command and its arguments, the removal of a file, and
  \<open>res.status(s).json(b)\<close>. The handler has no call that removes a file
  (\<open>fs\<close> is imported and not used), so it never logs \<open>Unlink\<close>.
\<close>

datatype 'n effect =
    Spawn string "string list"
  | Unlink string
  | Respond nat "'n json"

text \<open>
  \<open>out\<close> and \<open>err\<close> are the two accumulators of the handler; \<open>uncaught\<close> is an
  exception that no handler of the code receives.
\<close>

record 'n job =
  out :: string
  err :: string
  effects :: "'n effect list"
  uncaught :: "thrown option"

definition new_job :: "'n job" where
  "new_job = \<lparr>out = [], err = [], effects = [], uncaught = None\<rparr>"

definition respond :: "nat \<Rightarrow> 'n json \<Rightarrow> 'n job \<Rightarrow> 'n job" where
  "respond st b j = j\<lparr>effects := effects j @ [Respond st b]\<rparr>"

subsection \<open>The child process\<close>

text \<open>
  The events a \<open>ChildProcess\<close> emits: a chunk on \<open>stdout\<close> or \<open>stderr\<close> (already
  decoded by \<open>d.toString()\<close>), \<open>'close'\<close> with the exit code (\<open>None\<close> is
  \<open>null\<close>: the child was ended by a signal), and \<open>'error'\<close> (the process could
  not be spawned or killed).
\<close>

datatype child_event =
    StdoutData string
  | StderrData string
  | Close "int option"
  | ErrorEvent thrown

text \<open>\<open>spawn\<close> either throws at the call or returns a child that emits events.\<close>

datatype spawned = SpawnThrows thrown | Child "child_event list"

text \<open>
  The listener of \<open>'close'\<close>. \<open>JSON_parse\<close> is JavaScript's \<open>JSON.parse\<close>: \<open>None\<close>
  when it throws.
\<close>

definition on_close :: "(string \<Rightarrow> 'n json option) \<Rightarrow> int option \<Rightarrow> 'n job \<Rightarrow> 'n job" where
  "on_close JSON_parse code j =
     (if code \<noteq> Some 0 then
        respond 500 (JObj [(''error'', JStr ''Python failed''), (''details'', JStr (err j))]) j
      else
        (case JSON_parse (out j) of
           Some parsed \<Rightarrow> respond 200 parsed j
         | None \<Rightarrow>
             respond 500
               (JObj [(''error'', JStr ''Invalid JSON from Python''), (''details'', JStr (out j))]) j))"

text \<open>
  The listeners the handler registers, run over the events of the child in
  order. \<open>'close'\<close> is the last event of a child. The handler registers no
  listener of \<open>'error'\<close>; Node's \<open>EventEmitter\<close> throws an \<open>'error'\<close> event that
  has no listener, outside every \<open>try\<close> of the handler.
\<close>

fun dispatch :: "(string \<Rightarrow> 'n json option) \<Rightarrow> child_event list \<Rightarrow> 'n job \<Rightarrow> 'n job" where
  "dispatch JSON_parse [] j = j"
| "dispatch JSON_parse (StdoutData d # evs) j = dispatch JSON_parse evs (j\<lparr>out := out j @ d\<rparr>)"
| "dispatch JSON_parse (StderrData d # evs) j = dispatch JSON_parse evs (j\<lparr>err := err j @ d\<rparr>)"
| "dispatch JSON_parse (Close code # evs) j = on_close JSON_parse code j"
| "dispatch JSON_parse (ErrorEvent e # evs) j = j\<lparr>uncaught := Some e\<rparr>"

subsection \<open>\<open>handler\<close>\<close>

text \<open>
  \<open>script\<close> is the value of \<open>path.join(process.cwd(), 'api', 'reconstruct.py')\<close>;
  \<open>sp\<close> is what \<open>spawn\<close> does at its call.
\<close>

definition handler ::
  "(string \<Rightarrow> 'n json option) \<Rightarrow> string \<Rightarrow> request \<Rightarrow> spawned \<Rightarrow> 'n job" where
  "handler JSON_parse script req sp =
     (if method req \<noteq> ''POST'' then
        respond 405 (JObj [(''error'', JStr ''Method not allowed'')]) new_job
      else
        (case parseForm req of
           Inl e \<Rightarrow> respond 400 (JObj [(''error'', JStr (message_or e ''Bad request''))]) new_job
         | Inr fp \<Rightarrow>
             (case sp of
                SpawnThrows e \<Rightarrow>
                  respond 400 (JObj [(''error'', JStr (message_or e ''Bad request''))]) new_job
              | Child evs \<Rightarrow>
                  dispatch JSON_parse evs
                    (new_job\<lparr>effects := [Spawn ''python3'' [script, fp]]\<rparr>))))"

subsection \<open>Reading the effects\<close>

fun is_spawn :: "'n effect \<Rightarrow> bool" where
  "is_spawn (Spawn c args) = True"
| "is_spawn _ = False"

fun is_unlink :: "'n effect \<Rightarrow> bool" where
  "is_unlink (Unlink p) = True"
| "is_unlink _ = False"

fun is_respond :: "'n effect \<Rightarrow> bool" where
  "is_respond (Respond st b) = True"
| "is_respond _ = False"

definition spawns :: "'n job \<Rightarrow> 'n effect list" where
  "spawns j = filter is_spawn (effects j)"

definition unlinks :: "'n job \<Rightarrow> 'n effect list" where
  "unlinks j = filter is_unlink (effects j)"

definition responses :: "'n job \<Rightarrow> 'n effect list" where
  "responses j = filter is_respond (effects j)"

text \<open>The chunks of one stream, joined in the order they arrived.\<close>

fun stdout_of :: "child_event list \<Rightarrow> string" where
  "stdout_of [] = []"
| "stdout_of (StdoutData d # evs) = d @ stdout_of evs"
| "stdout_of (_ # evs) = stdout_of evs"

fun stderr_of :: "child_event list \<Rightarrow> string" where
  "stderr_of [] = []"
| "stderr_of (StderrData d # evs) = d @ stderr_of evs"
| "stderr_of (_ # evs) = stderr_of evs"

fun is_data :: "child_event \<Rightarrow> bool" where
  "is_data (StdoutData d) = True"
| "is_data (StderrData d) = True"
| "is_data _ = False"

fun is_stdout :: "child_event \<Rightarrow> bool" where
  "is_stdout (StdoutData d) = True"
| "is_stdout _ = False"

text \<open>
  A parser for closed examples: it accepts the two texts below and rejects
  every other.
\<close>

definition sample_parse :: "string \<Rightarrow> int json option" where
  "sample_parse s =
     (if s = ''{}'' then Some (JObj [])
      else if s = ''{\"reconstructed_base64\":\"Zm9v\"}''
        then Some (JObj [(''reconstructed_base64'', JStr ''Zm9v'')])
      else None)"

definition sample_request :: request where
  "sample_request =
     \<lparr>method = ''POST'', form_err = None,
      form_files = [''image'' \<mapsto> \<lparr>filepath = ''/tmp/upload.jpg''\<rparr>]\<rparr>"

section \<open>The capture client: the page component \<open>Home\<close>\<close>

subsection \<open>JavaScript operations on a parsed body\<close>

text \<open>
  The two operations of JavaScript on numbers that the component reaches:
  whether a number is truthy (neither zero nor NaN) and its string form.
\<close>

record 'n number_ops =
  num_truthy :: "'n \<Rightarrow> bool"
  num_string :: "'n \<Rightarrow> string"

text \<open>
  \<open>data?.key\<close> for the two keys the component reads: \<open>None\<close> is \<open>undefined\<close>,
  which is what \<open>null\<close>, a primitive and an array give for them.
\<close>

fun member :: "'n json \<Rightarrow> string \<Rightarrow> 'n json option" where
  "member (JObj kvs) key = map_of kvs key"
| "member _ key = None"

fun truthy :: "'n number_ops \<Rightarrow> 'n json \<Rightarrow> bool" where
  "truthy ops JNull = False"
| "truthy ops (JBool b) = b"
| "truthy ops (JNum n) = num_truthy ops n"
| "truthy ops (JStr s) = (s \<noteq> [])"
| "truthy ops (JArr xs) = True"
| "truthy ops (JObj kvs) = True"

fun join_comma :: "string list \<Rightarrow> string" where
  "join_comma [] = []"
| "join_comma [x] = x"
| "join_comma (x # y # ys) = x @ '','' @ join_comma (y # ys)"

text \<open>The string a template literal \<open>`${v}`\<close> inserts for \<open>v\<close>.\<close>

fun to_string :: "'n number_ops \<Rightarrow> 'n json \<Rightarrow> string" where
  "to_string ops JNull = ''null''"
| "to_string ops (JBool b) = (if b then ''true'' else ''false'')"
| "to_string ops (JNum n) = num_string ops n"
| "to_string ops (JStr s) = s"
| "to_string ops (JArr xs) =
     join_comma (map (\<lambda>x. if x = JNull then [] else to_string ops x) xs)"
| "to_string ops (JObj kvs) = ''[object Object]''"

text \<open>\<open>`${res.status}`\<close>: a status code in decimal.\<close>

definition digit :: "nat \<Rightarrow> char" where
  "digit n = ''0123456789'' ! n"

function decimal :: "nat \<Rightarrow> string" where
  "decimal n = (if n < 10 then [digit n] else decimal (n div 10) @ [digit (n mod 10)])"
  by pat_completeness auto
termination
  by (relation "measure id") auto

declare decimal.simps [simp del]

text \<open>\<open>res.ok\<close> of the Fetch API.\<close>

definition res_ok :: "nat \<Rightarrow> bool" where
  "res_ok st = (200 \<le> st \<and> st \<le> 299)"

subsection \<open>The state of the component\<close>

type_synonym blob = string

text \<open>
  The four \<open>useState\<close> cells, and what the component has under way outside
  itself: \<open>posts\<close> is the image of every \<open>POST /api/reconstruct\<close> sent so far,
  \<open>fetching\<close> the \<open>fetch\<close> promises not yet settled, \<open>reading\<close> the
  \<open>res.json()\<close> promises not yet settled, \<open>starting\<close> the camera requests not
  yet settled, \<open>snapping\<close> the size of the canvas of every \<open>toBlob\<close> whose
  callback has not run, and \<open>console\<close> what \<open>console.log\<close> printed after
  \<open>DeepFace analysis:\<close>.
\<close>

record 'n client =
  streaming :: bool
  busy :: bool
  resultImg :: "string option"
  error :: "string option"
  posts :: "blob list"
  fetching :: nat
  reading :: nat
  starting :: nat
  snapping :: "(nat \<times> nat) list"
  console :: "'n json list"

definition initial_client :: "'n client" where
  "initial_client =
     \<lparr>streaming = False, busy = False, resultImg = None, error = None,
      posts = [], fetching = 0, reading = 0, starting = 0, snapping = [], console = []\<rparr>"

subsection \<open>\<open>startCamera\<close>\<close>

text \<open>
  Up to \<open>await getUserMedia\<close>, and from there on: \<open>Some e\<close> when
  \<open>getUserMedia\<close> or \<open>play\<close> rejects with \<open>e\<close>. The video element is mounted
  with the component, so \<open>videoRef.current\<close> is set.
\<close>

definition startCamera_begin :: "'n client \<Rightarrow> 'n client" where
  "startCamera_begin s = s\<lparr>error := None, starting := Suc (starting s)\<rparr>"

definition startCamera_settled :: "thrown option \<Rightarrow> 'n client \<Rightarrow> 'n client" where
  "startCamera_settled r s =
     (case r of
        Some e \<Rightarrow> s\<lparr>error := Some (message_or e ''Failed to access camera'')\<rparr>
      | None \<Rightarrow> s\<lparr>streaming := True\<rparr>)"

subsection \<open>\<open>snapshotBlob\<close>\<close>

text \<open>
  What \<open>snapshotBlob\<close> finds in the page: the video element with its
  \<open>videoWidth\<close> and \<open>videoHeight\<close>, the canvas, and whether the canvas gives
  a 2D context.
\<close>

record dom =
  video :: "(nat \<times> nat) option"
  canvas :: bool
  context2d :: bool

text \<open>
  The executor of the promise up to \<open>canvas.toBlob\<close>: \<open>Inl\<close> is a rejection,
  \<open>Inr\<close> the size given to the canvas, with the callback of \<open>toBlob\<close> pending.
\<close>

definition snapshotBlob :: "dom \<Rightarrow> thrown + nat \<times> nat" where
  "snapshotBlob d =
     (case video d of
        None \<Rightarrow> Inl (StringValue ''No video'')
      | Some (w, h) \<Rightarrow>
          if \<not> canvas d then Inl (StringValue ''No video'')
          else if \<not> context2d d then Inl (StringValue ''No ctx'')
          else Inr (if w = 0 then 640 else w, if h = 0 then 480 else h))"

text \<open>The callback of \<open>toBlob\<close>: no blob rejects, a blob resolves.\<close>

definition snapshotBlob_callback :: "blob option \<Rightarrow> thrown + blob" where
  "snapshotBlob_callback b =
     (case b of None \<Rightarrow> Inl (StringValue ''No blob'') | Some blob \<Rightarrow> Inr blob)"

subsection \<open>\<open>analyze\<close>\<close>

text \<open>
  \<open>analyze\<close> runs in three parts, cut at its two \<open>await\<close>s. The first sets the
  state and sends the request.
\<close>

definition analyze_begin :: "blob \<Rightarrow> 'n client \<Rightarrow> 'n client" where
  "analyze_begin blob s =
     s\<lparr>busy := True, error := None, resultImg := None,
       posts := posts s @ [blob], fetching := Suc (fetching s)\<rparr>"

text \<open>The \<open>catch\<close> and the \<open>finally\<close> of \<open>analyze\<close>.\<close>

definition analyze_catch :: "thrown \<Rightarrow> 'n client \<Rightarrow> 'n client" where
  "analyze_catch e s = s\<lparr>error := Some (message_or e ''Failed to analyze'')\<rparr>"

definition analyze_finally :: "'n client \<Rightarrow> 'n client" where
  "analyze_finally s = s\<lparr>busy := False\<rparr>"

text \<open>
  After \<open>await fetch\<close>: \<open>Inl\<close> when \<open>fetch\<close> rejected, \<open>Inr\<close> the status of the
  response. A response that is not \<open>ok\<close> throws before \<open>res.json()\<close> is
  called; an \<open>ok\<close> one calls it and waits.
\<close>

definition analyze_fetched :: "thrown + nat \<Rightarrow> 'n client \<Rightarrow> 'n client" where
  "analyze_fetched r s =
     (case r of
        Inl e \<Rightarrow> analyze_finally (analyze_catch e s)
      | Inr st \<Rightarrow>
          if \<not> res_ok st then
            analyze_finally (analyze_catch (Error (''Server error: '' @ decimal st)) s)
          else s\<lparr>reading := Suc (reading s)\<rparr>)"

text \<open>After \<open>await res.json()\<close>: \<open>Inl\<close> when it rejected, \<open>Inr\<close> the parsed body.\<close>

definition show_result :: "'n number_ops \<Rightarrow> 'n json \<Rightarrow> 'n client \<Rightarrow> 'n client" where
  "show_result ops data s =
     (case member data ''reconstructed_base64'' of
        None \<Rightarrow> s
      | Some v \<Rightarrow>
          if truthy ops v
          then s\<lparr>resultImg := Some (''data:image/jpeg;base64,'' @ to_string ops v)\<rparr>
          else s)"

definition log_analysis :: "'n number_ops \<Rightarrow> 'n json \<Rightarrow> 'n client \<Rightarrow> 'n client" where
  "log_analysis ops data s =
     (case member data ''analysis'' of
        None \<Rightarrow> s
      | Some v \<Rightarrow> if truthy ops v then s\<lparr>console := console s @ [v]\<rparr> else s)"

definition analyze_parsed :: "'n number_ops \<Rightarrow> thrown + 'n json \<Rightarrow> 'n client \<Rightarrow> 'n client" where
  "analyze_parsed ops r s =
     (case r of
        Inl e \<Rightarrow> analyze_finally (analyze_catch e s)
      | Inr data \<Rightarrow> analyze_finally (log_analysis ops data (show_result ops data s)))"

subsection \<open>\<open>captureAndAnalyze\<close> and \<open>onFileInput\<close>\<close>

text \<open>
  \<open>captureAndAnalyze\<close> up to the callback of \<open>toBlob\<close>, and from the callback
  on. \<open>analyze\<close> does not reject, so the \<open>catch\<close> only receives the
  rejections of \<open>snapshotBlob\<close>.
\<close>

definition captureAndAnalyze_begin :: "dom \<Rightarrow> 'n client \<Rightarrow> 'n client" where
  "captureAndAnalyze_begin d s =
     (case snapshotBlob d of
        Inl e \<Rightarrow> s\<lparr>error := Some (message_or e ''Capture failed'')\<rparr>
      | Inr wh \<Rightarrow> s\<lparr>snapping := snapping s @ [wh]\<rparr>)"

definition captureAndAnalyze_blob :: "blob option \<Rightarrow> 'n client \<Rightarrow> 'n client" where
  "captureAndAnalyze_blob b s =
     (case snapshotBlob_callback b of
        Inl e \<Rightarrow> s\<lparr>error := Some (message_or e ''Capture failed'')\<rparr>
      | Inr blob \<Rightarrow> analyze_begin blob s)"

text \<open>\<open>f\<close> is \<open>e.target.files?.[0]\<close>.\<close>

definition onFileInput :: "blob option \<Rightarrow> 'n client \<Rightarrow> 'n client" where
  "onFileInput f s = (case f of None \<Rightarrow> s | Some file \<Rightarrow> analyze_begin file s)"

subsection \<open>The rendered page and its events\<close>

text \<open>
  What can happen to the mounted component: a click on one of the two
  buttons, a change of the file input, and the settling of something under
  way. The page renders \<open>Start Camera\<close> with \<open>disabled={streaming}\<close>,
  \<open>Capture & Analyze\<close> with \<open>disabled={!streaming || busy}\<close>, and the file
  input with no \<open>disabled\<close> attribute. A disabled button gives no click.
\<close>

datatype 'n event =
    StartCameraClick
  | CameraSettled "thrown option"
  | CaptureClick dom
  | BlobDelivered "blob option"
  | FileChosen "blob option"
  | FetchSettled "thrown + nat"
  | BodySettled "thrown + 'n json"

text \<open>One event; \<open>None\<close> when the event cannot happen in this state.\<close>

fun step :: "'n number_ops \<Rightarrow> 'n event \<Rightarrow> 'n client \<Rightarrow> 'n client option" where
  "step ops StartCameraClick s =
     (if streaming s then None else Some (startCamera_begin s))"
| "step ops (CameraSettled r) s =
     (if starting s = 0 then None
      else Some (startCamera_settled r (s\<lparr>starting := starting s - 1\<rparr>)))"
| "step ops (CaptureClick d) s =
     (if \<not> streaming s \<or> busy s then None else Some (captureAndAnalyze_begin d s))"
| "step ops (BlobDelivered b) s =
     (if snapping s = [] then None
      else Some (captureAndAnalyze_blob b (s\<lparr>snapping := tl (snapping s)\<rparr>)))"
| "step ops (FileChosen f) s = Some (onFileInput f s)"
| "step ops (FetchSettled r) s =
     (if fetching s = 0 then None
      else Some (analyze_fetched r (s\<lparr>fetching := fetching s - 1\<rparr>)))"
| "step ops (BodySettled r) s =
     (if reading s = 0 then None
      else Some (analyze_parsed ops r (s\<lparr>reading := reading s - 1\<rparr>)))"

fun run :: "'n number_ops \<Rightarrow> 'n event list \<Rightarrow> 'n client \<Rightarrow> 'n client option" where
  "run ops [] s = Some s"
| "run ops (e # es) s = (case step ops e s of None \<Rightarrow> None | Some s' \<Rightarrow> run ops es s')"

text \<open>Numbers as integers, for closed examples.\<close>

definition sample_numbers :: "int number_ops" where
  "sample_numbers =
     \<lparr>num_truthy = (\<lambda>n. n \<noteq> 0),
      num_string = (\<lambda>n. if n < 0 then ''-'' @ decimal (nat (- n)) else decimal (nat n))\<rparr>"

section \<open>Properties of the orchestrator\<close>

lemma dispatch_data:
  "\<forall>e \<in> set ds. is_data e \<Longrightarrow>
   dispatch P (ds @ rest) j =
   dispatch P rest (j\<lparr>out := out j @ stdout_of ds, err := err j @ stderr_of ds\<rparr>)"
proof (induction ds arbitrary: j)
  case Nil
  then show ?case by simp
next
  case (Cons e ds)
  then show ?case by (cases e) simp_all
qed

lemma dispatch_effects:
  "\<exists>rs. effects (dispatch P evs j) = effects j @ rs \<and> (\<forall>r \<in> set rs. is_respond r)"
proof (induction evs arbitrary: j)
  case Nil
  then show ?case by simp
next
  case (Cons e evs)
  show ?case
  proof (cases e)
    case (StdoutData d)
    with Cons.IH [of "j\<lparr>out := out j @ d\<rparr>"] show ?thesis by simp
  next
    case (StderrData d)
    with Cons.IH [of "j\<lparr>err := err j @ d\<rparr>"] show ?thesis by simp
  next
    case (Close code)
    then show ?thesis
      by (simp add: on_close_def respond_def split: option.splits)
  next
    case (ErrorEvent x)
    then show ?thesis by simp
  qed
qed

lemma parseForm_sample: "parseForm sample_request = Inr ''/tmp/upload.jpg''"
  by (simp add: parseForm_def sample_request_def)

lemma only_responses:
  "\<forall>r \<in> set rs. is_respond r \<Longrightarrow> filter is_spawn rs = [] \<and> filter is_unlink rs = []"
proof (induction rs)
  case Nil
  then show ?case by simp
next
  case (Cons r rs)
  then show ?case by (cases r) simp_all
qed

lemma message_or_nonempty: "d \<noteq> [] \<Longrightarrow> message_or e d \<noteq> []"
  by (cases e) simp_all

lemma data_without_stdout:
  "\<forall>e \<in> set ds. is_data e \<Longrightarrow>
   (\<forall>e \<in> set (filter (\<lambda>e. \<not> is_stdout e) ds). is_data e) \<and>
   stderr_of (filter (\<lambda>e. \<not> is_stdout e) ds) = stderr_of ds"
proof (induction ds)
  case Nil
  then show ?case by simp
next
  case (Cons e ds)
  then show ?case by (cases e) simp_all
qed

lemma handler_child:
  "method req = ''POST'' \<Longrightarrow> parseForm req = Inr fp \<Longrightarrow>
   handler P script req (Child evs) =
   dispatch P evs (new_job\<lparr>effects := [Spawn ''python3'' [script, fp]]\<rparr>)"
  by (simp add: handler_def)

lemma handler_closed:
  assumes "method req = ''POST''" and "parseForm req = Inr fp"
    and "\<forall>e \<in> set ds. is_data e"
  shows "handler P script req (Child (ds @ [Close code])) =
         on_close P code
           \<lparr>out = stdout_of ds, err = stderr_of ds,
            effects = [Spawn ''python3'' [script, fp]], uncaught = None\<rparr>"
  using assms by (simp add: handler_child dispatch_data new_job_def)

text \<open>
  C1, as the code has it. For every POST request whose upload parses and whose
  \<open>spawn\<close> returns a child, whatever the child then does (success, non-zero
  exit, output that is not JSON, no exit at all), the handler calls \<open>spawn\<close>
  exactly once, with \<open>python3\<close>, the script and the path of the temporary
  file, and it removes no file: the temporary file is deleted zero times.
\<close>

theorem handler_spawns_once_unlinks_never:
  assumes "method req = ''POST''" and "parseForm req = Inr fp"
  shows "spawns (handler P script req (Child evs)) = [Spawn ''python3'' [script, fp]] \<and>
         unlinks (handler P script req (Child evs)) = []"
proof -
  let ?j = "new_job\<lparr>effects := [Spawn ''python3'' [script, fp]]\<rparr> :: 'a job"
  obtain rs where rs: "effects (dispatch P evs ?j) = effects ?j @ rs"
    and resp: "\<forall>r \<in> set rs. is_respond r"
    using dispatch_effects [of P evs ?j] by blast
  from resp have "filter is_spawn rs = []" and "filter is_unlink rs = []"
    using only_responses [of rs] by simp_all
  with rs assms show ?thesis
    by (simp add: handler_child spawns_def unlinks_def)
qed

theorem handler_spawns_once_unlinks_never_witness:
  "method sample_request = ''POST'' \<and> parseForm sample_request = Inr ''/tmp/upload.jpg'' \<and>
   spawns (handler sample_parse ''/app/api/reconstruct.py'' sample_request
             (Child [StdoutData ''{}'', Close (Some 0)])) =
     [Spawn ''python3'' [''/app/api/reconstruct.py'', ''/tmp/upload.jpg'']] \<and>
   unlinks (handler sample_parse ''/app/api/reconstruct.py'' sample_request
             (Child [StdoutData ''{}'', Close (Some 0)])) = [] \<and>
   unlinks (handler sample_parse ''/app/api/reconstruct.py'' sample_request
             (Child [StderrData ''cannot decode image'', Close (Some 1)])) = [] \<and>
   unlinks (handler sample_parse ''/app/api/reconstruct.py'' sample_request
             (Child [StdoutData ''Traceback'', Close (Some 0)])) = []"
proof -
  have m: "method sample_request = ''POST''"
    by (simp add: sample_request_def)
  have p: "parseForm sample_request = Inr ''/tmp/upload.jpg''"
    by (rule parseForm_sample)
  show ?thesis
    using m p
      handler_spawns_once_unlinks_never [OF m p, of sample_parse "''/app/api/reconstruct.py''"
        "[StdoutData ''{}'', Close (Some 0)]"]
      handler_spawns_once_unlinks_never [OF m p, of sample_parse "''/app/api/reconstruct.py''"
        "[StderrData ''cannot decode image'', Close (Some 1)]"]
      handler_spawns_once_unlinks_never [OF m p, of sample_parse "''/app/api/reconstruct.py''"
        "[StdoutData ''Traceback'', Close (Some 0)]"]
    by simp
qed

text \<open>
  C1 as stated fails: on a valid upload whose child prints \<open>{}\<close> and exits
  with code 0, the handler answers 200 and has deleted the temporary file zero
  times, not once.
\<close>

theorem temp_file_not_deleted_counterexample:
  "\<not> (length (spawns (handler sample_parse ''/app/api/reconstruct.py'' sample_request
                      (Child [StdoutData ''{}'', Close (Some 0)]))) = 1 \<and>
      length (unlinks (handler sample_parse ''/app/api/reconstruct.py'' sample_request
                      (Child [StdoutData ''{}'', Close (Some 0)]))) = 1)"
proof -
  have m: "method sample_request = ''POST''"
    by (simp add: sample_request_def)
  show ?thesis
    by (simp add: handler_def m parseForm_sample new_job_def on_close_def
        respond_def sample_parse_def unlinks_def)
qed

text \<open>
  C2. For every POST request whose upload parses and whose child emits chunks
  and then closes with a code other than 0 (a number, or \<open>null\<close> after a
  signal), the handler's only response is 500 with \<open>error\<close> \<open>Python failed\<close>
  and \<open>details\<close> equal to the stderr chunks joined in order; the same run
  without its stdout chunks has the same effects, so stdout is discarded.
\<close>

theorem nonzero_exit_500_details_stderr:
  assumes "method req = ''POST''" and "parseForm req = Inr fp"
    and "\<forall>e \<in> set ds. is_data e" and "code \<noteq> Some 0"
  shows "effects (handler P script req (Child (ds @ [Close code]))) =
           [Spawn ''python3'' [script, fp],
            Respond 500 (JObj [(''error'', JStr ''Python failed''),
                               (''details'', JStr (stderr_of ds))])] \<and>
         effects (handler P script req (Child (filter (\<lambda>e. \<not> is_stdout e) ds @ [Close code]))) =
           effects (handler P script req (Child (ds @ [Close code])))"
proof -
  have full: "effects (handler P script req (Child (ds @ [Close code]))) =
           [Spawn ''python3'' [script, fp],
            Respond 500 (JObj [(''error'', JStr ''Python failed''),
                               (''details'', JStr (stderr_of ds))])]"
    using assms by (simp add: handler_closed on_close_def respond_def)
  from assms(3) have d: "\<forall>e \<in> set (filter (\<lambda>e. \<not> is_stdout e) ds). is_data e"
    and s: "stderr_of (filter (\<lambda>e. \<not> is_stdout e) ds) = stderr_of ds"
    using data_without_stdout [of ds] by simp_all
  have "effects (handler P script req (Child (filter (\<lambda>e. \<not> is_stdout e) ds @ [Close code]))) =
           [Spawn ''python3'' [script, fp],
            Respond 500 (JObj [(''error'', JStr ''Python failed''),
                               (''details'', JStr (stderr_of ds))])]"
    using assms(1,2,4) d s by (simp add: handler_closed on_close_def respond_def)
  with full show ?thesis by simp
qed

theorem nonzero_exit_500_details_stderr_witness:
  "method sample_request = ''POST'' \<and> parseForm sample_request = Inr ''/tmp/upload.jpg'' \<and>
   Some 1 \<noteq> Some (0::int) \<and>
   effects (handler sample_parse ''/app/api/reconstruct.py'' sample_request
     (Child ([StdoutData ''partial'', StderrData ''cannot '', StderrData ''decode image'']
             @ [Close (Some 1)]))) =
     [Spawn ''python3'' [''/app/api/reconstruct.py'', ''/tmp/upload.jpg''],
      Respond 500 (JObj [(''error'', JStr ''Python failed''),
                         (''details'', JStr ''cannot decode image'')])]"
proof -
  have m: "method sample_request = ''POST''"
    by (simp add: sample_request_def)
  have d: "\<forall>e \<in> set [StdoutData ''partial'', StderrData ''cannot '', StderrData ''decode image''].
      is_data e"
    by simp
  have c: "Some 1 \<noteq> Some (0::int)" by simp
  show ?thesis
    using m d c parseForm_sample
      nonzero_exit_500_details_stderr [OF m parseForm_sample d c,
        of sample_parse "''/app/api/reconstruct.py''"]
    by simp
qed

text \<open>
  C3. For every POST request whose upload parses and whose child emits chunks
  and then closes with code 0, when \<open>JSON.parse\<close> throws on the joined stdout
  chunks the handler's only response is 500 with \<open>error\<close>
  \<open>Invalid JSON from Python\<close> and \<open>details\<close> equal to that stdout text; the
  exception of the parser is not in the response.
\<close>

theorem zero_exit_invalid_json_500_details_stdout:
  assumes "method req = ''POST''" and "parseForm req = Inr fp"
    and "\<forall>e \<in> set ds. is_data e" and "P (stdout_of ds) = None"
  shows "effects (handler P script req (Child (ds @ [Close (Some 0)]))) =
           [Spawn ''python3'' [script, fp],
            Respond 500 (JObj [(''error'', JStr ''Invalid JSON from Python''),
                               (''details'', JStr (stdout_of ds))])]"
  using assms by (simp add: handler_closed on_close_def respond_def)

theorem zero_exit_invalid_json_500_details_stdout_witness:
  "method sample_request = ''POST'' \<and> parseForm sample_request = Inr ''/tmp/upload.jpg'' \<and>
   sample_parse (stdout_of [StdoutData ''Trace'', StderrData ''warning'', StdoutData ''back''])
     = None \<and>
   effects (handler sample_parse ''/app/api/reconstruct.py'' sample_request
     (Child ([StdoutData ''Trace'', StderrData ''warning'', StdoutData ''back'']
             @ [Close (Some 0)]))) =
     [Spawn ''python3'' [''/app/api/reconstruct.py'', ''/tmp/upload.jpg''],
      Respond 500 (JObj [(''error'', JStr ''Invalid JSON from Python''),
                         (''details'', JStr ''Traceback'')])]"
proof -
  have m: "method sample_request = ''POST''"
    by (simp add: sample_request_def)
  have d: "\<forall>e \<in> set [StdoutData ''Trace'', StderrData ''warning'', StdoutData ''back''].
      is_data e"
    by simp
  have n: "sample_parse (stdout_of [StdoutData ''Trace'', StderrData ''warning'',
      StdoutData ''back'']) = None"
    by (simp add: sample_parse_def)
  show ?thesis
    using m d n parseForm_sample
      zero_exit_invalid_json_500_details_stdout [where P = sample_parse
        and script = "''/app/api/reconstruct.py''", OF m parseForm_sample d n]
    by simp
qed

text \<open>
  C4. For every POST request whose upload parses and whose child emits chunks
  and then closes with code 0, when \<open>JSON.parse\<close> returns a value \<open>v\<close> for the
  joined stdout chunks the handler's only response is 200 with body \<open>v\<close>
  itself, whatever \<open>v\<close> is: no member of it is looked at.
\<close>

theorem zero_exit_valid_json_200_verbatim:
  assumes "method req = ''POST''" and "parseForm req = Inr fp"
    and "\<forall>e \<in> set ds. is_data e" and "P (stdout_of ds) = Some v"
  shows "effects (handler P script req (Child (ds @ [Close (Some 0)]))) =
           [Spawn ''python3'' [script, fp], Respond 200 v]"
  using assms by (simp add: handler_closed on_close_def respond_def)

theorem zero_exit_valid_json_200_verbatim_witness:
  "method sample_request = ''POST'' \<and> parseForm sample_request = Inr ''/tmp/upload.jpg'' \<and>
   sample_parse (stdout_of [StdoutData ''{'', StderrData ''loading model'', StdoutData ''}''])
     = Some (JObj []) \<and>
   effects (handler sample_parse ''/app/api/reconstruct.py'' sample_request
     (Child ([StdoutData ''{'', StderrData ''loading model'', StdoutData ''}'']
             @ [Close (Some 0)]))) =
     [Spawn ''python3'' [''/app/api/reconstruct.py'', ''/tmp/upload.jpg''],
      Respond 200 (JObj [])]"
proof -
  have m: "method sample_request = ''POST''"
    by (simp add: sample_request_def)
  have d: "\<forall>e \<in> set [StdoutData ''{'', StderrData ''loading model'', StdoutData ''}''].
      is_data e"
    by simp
  have v: "sample_parse (stdout_of [StdoutData ''{'', StderrData ''loading model'',
      StdoutData ''}'']) = Some (JObj [])"
    by (simp add: sample_parse_def)
  show ?thesis
    using m d v parseForm_sample
      zero_exit_valid_json_200_verbatim [where P = sample_parse
        and script = "''/app/api/reconstruct.py''", OF m parseForm_sample d v]
    by simp
qed

text \<open>
  C6, at the input where the code leaves it: a valid upload, and a child that
  could not be started (\<open>python3\<close> is not on the path), which emits \<open>'error'\<close>.
  The handler called \<open>spawn\<close>, no listener takes the event, the exception is
  uncaught and the request has no response.
\<close>

theorem spawn_error_event_unanswered:
  "effects (handler sample_parse ''/app/api/reconstruct.py'' sample_request
     (Child [ErrorEvent (Error ''spawn python3 ENOENT'')])) =
     [Spawn ''python3'' [''/app/api/reconstruct.py'', ''/tmp/upload.jpg'']] \<and>
   responses (handler sample_parse ''/app/api/reconstruct.py'' sample_request
     (Child [ErrorEvent (Error ''spawn python3 ENOENT'')])) = [] \<and>
   uncaught (handler sample_parse ''/app/api/reconstruct.py'' sample_request
     (Child [ErrorEvent (Error ''spawn python3 ENOENT'')])) =
     Some (Error ''spawn python3 ENOENT'')"
proof -
  have m: "method sample_request = ''POST''"
    by (simp add: sample_request_def)
  show ?thesis
    by (simp add: handler_def m parseForm_sample new_job_def responses_def)
qed

text \<open>
  The failures the handler does recover: a wrong method, a rejected
  \<open>parseForm\<close>, a \<open>spawn\<close> that throws at the call, and a child that closes,
  with any code and any output. Each gets exactly one response and leaves no
  uncaught exception.
\<close>

lemma handler_answers_once:
  assumes "method req \<noteq> ''POST'' \<or> (\<exists>e. parseForm req = Inl e) \<or> (\<exists>e. sp = SpawnThrows e) \<or>
           (\<exists>ds code rest. sp = Child (ds @ Close code # rest) \<and> (\<forall>e \<in> set ds. is_data e))"
  shows "length (responses (handler P script req sp)) = 1 \<and>
         uncaught (handler P script req sp) = None"
proof (cases "method req \<noteq> ''POST''")
  case True
  then show ?thesis
    by (simp add: handler_def respond_def new_job_def responses_def)
next
  case post: False
  show ?thesis
  proof (cases "parseForm req")
    case (Inl e)
    with post show ?thesis
      by (simp add: handler_def respond_def new_job_def responses_def)
  next
    case (Inr fp)
    show ?thesis
    proof (cases sp)
      case (SpawnThrows e)
      with post Inr show ?thesis
        by (simp add: handler_def respond_def new_job_def responses_def)
    next
      case (Child evs)
      with assms post Inr obtain ds code rest
        where evs: "evs = ds @ Close code # rest" and data: "\<forall>e \<in> set ds. is_data e"
        by auto
      from post Inr Child evs data show ?thesis
        by (simp add: handler_def dispatch_data on_close_def respond_def new_job_def
            responses_def split: option.splits)
    qed
  qed
qed

text \<open>
  C7. For every POST request whose form parsing reports an error or whose
  files have no \<open>image\<close> field, whatever \<open>spawn\<close> would do, the handler's only
  effect is one response with status 400 and a body whose \<open>error\<close> is a
  non-empty string, so \<open>spawn\<close> is not called; when parsing reported no error
  and only the field is missing, the message is \<open>image missing\<close>.
\<close>

theorem bad_upload_400_no_spawn:
  assumes "method req = ''POST''"
    and "form_err req \<noteq> None \<or> form_files req ''image'' = None"
  shows "(\<exists>m. m \<noteq> [] \<and>
            effects (handler P script req sp) = [Respond 400 (JObj [(''error'', JStr m)])]) \<and>
         spawns (handler P script req sp) = [] \<and>
         (form_err req = None \<longrightarrow>
            effects (handler P script req sp) =
              [Respond 400 (JObj [(''error'', JStr ''image missing'')])])"
proof -
  define e where "e = (case form_err req of Some x \<Rightarrow> x | None \<Rightarrow> Error ''image missing'')"
  from assms(2) have e: "parseForm req = Inl e"
    by (auto simp: parseForm_def e_def split: option.splits)
  have missing: "form_err req = None \<Longrightarrow> e = Error ''image missing''"
    by (simp add: e_def)
  have eff: "effects (handler P script req sp) =
      [Respond 400 (JObj [(''error'', JStr (message_or e ''Bad request''))])]"
    using assms(1) e by (simp add: handler_def respond_def new_job_def)
  have "message_or e ''Bad request'' \<noteq> []"
    by (rule message_or_nonempty) simp
  with eff have "\<exists>m. m \<noteq> [] \<and>
      effects (handler P script req sp) = [Respond 400 (JObj [(''error'', JStr m)])]"
    by blast
  moreover from eff have "spawns (handler P script req sp) = []"
    by (simp add: spawns_def)
  moreover have "form_err req = None \<longrightarrow>
      effects (handler P script req sp) =
        [Respond 400 (JObj [(''error'', JStr ''image missing'')])]"
    using eff missing by simp
  ultimately show ?thesis by blast
qed

theorem bad_upload_400_no_spawn_witness:
  "method \<lparr>method = ''POST'', form_err = None, form_files = Map.empty\<rparr> = ''POST'' \<and>
   form_files \<lparr>method = ''POST'', form_err = None, form_files = Map.empty\<rparr> ''image'' = None \<and>
   form_err \<lparr>method = ''POST'', form_err = None, form_files = Map.empty\<rparr> = None \<and>
   effects (handler sample_parse ''/app/api/reconstruct.py''
              \<lparr>method = ''POST'', form_err = None, form_files = Map.empty\<rparr>
              (Child [StdoutData ''{}'', Close (Some 0)])) =
     [Respond 400 (JObj [(''error'', JStr ''image missing'')])] \<and>
   spawns (handler sample_parse ''/app/api/reconstruct.py''
              \<lparr>method = ''POST'', form_err = None, form_files = Map.empty\<rparr>
              (Child [StdoutData ''{}'', Close (Some 0)])) = [] \<and>
   spawns (handler sample_parse ''/app/api/reconstruct.py''
              \<lparr>method = ''POST'', form_err = Some (Error ''bad content-type header''),
               form_files = Map.empty\<rparr>
              (Child [StdoutData ''{}'', Close (Some 0)])) = []"
proof -
  let ?r = "\<lparr>method = ''POST'', form_err = None, form_files = Map.empty\<rparr>"
  let ?q = "\<lparr>method = ''POST'', form_err = Some (Error ''bad content-type header''),
             form_files = Map.empty\<rparr>"
  have m: "method ?r = ''POST''" by simp
  have h: "form_err ?r \<noteq> None \<or> form_files ?r ''image'' = None" by simp
  have m': "method ?q = ''POST''" by simp
  have h': "form_err ?q \<noteq> None \<or> form_files ?q ''image'' = None" by simp
  show ?thesis
    using m h
      bad_upload_400_no_spawn [OF m h, of sample_parse "''/app/api/reconstruct.py''"
        "Child [StdoutData ''{}'', Close (Some 0)]"]
      bad_upload_400_no_spawn [OF m' h', of sample_parse "''/app/api/reconstruct.py''"
        "Child [StdoutData ''{}'', Close (Some 0)]"]
    by simp
qed

section \<open>Properties of the capture client\<close>

lemma decimal_500: "decimal 500 = ''500''"
  by (simp add: decimal.simps digit_def)

lemma capture_disabled_while_busy: "busy s \<Longrightarrow> step ops (CaptureClick d) s = None"
  by simp

lemma file_input_while_busy:
  "busy s \<Longrightarrow>
   step ops (FileChosen (Some f)) s = Some (analyze_begin f s) \<and>
   fetching (analyze_begin f s) = Suc (fetching s) \<and>
   posts (analyze_begin f s) = posts s @ [f]"
  by (simp add: onFileInput_def analyze_begin_def)

text \<open>
  C5, at the input where the code leaves it: a file is chosen, the request
  is sent and \<open>busy\<close> is true; a second file is chosen before the first
  request settles. The file input is not disabled by \<open>busy\<close>, so a second
  request is sent and two are under way.
\<close>

theorem file_input_starts_request_while_busy:
  "run sample_numbers [FileChosen (Some ''first.jpg'')] initial_client =
     Some (initial_client\<lparr>busy := True, posts := [''first.jpg''], fetching := 1\<rparr>) \<and>
   run sample_numbers [FileChosen (Some ''first.jpg''), FileChosen (Some ''second.jpg'')]
     initial_client =
     Some (initial_client\<lparr>busy := True, posts := [''first.jpg'', ''second.jpg''],
                          fetching := 2\<rparr>)"
  by (simp add: onFileInput_def analyze_begin_def initial_client_def)

text \<open>
  The capture button has the same opening before \<open>busy\<close> is set: two clicks
  before the first \<open>toBlob\<close> callback both pass the gate, and both snapshots
  are sent.
\<close>

lemma capture_clicks_before_blob:
  "run sample_numbers
     [CaptureClick \<lparr>video = Some (640, 480), canvas = True, context2d = True\<rparr>,
      CaptureClick \<lparr>video = Some (640, 480), canvas = True, context2d = True\<rparr>,
      BlobDelivered (Some ''frame1''), BlobDelivered (Some ''frame2'')]
     (initial_client\<lparr>streaming := True\<rparr>) =
   Some (initial_client\<lparr>streaming := True, busy := True,
                        posts := [''frame1'', ''frame2''], fetching := 2\<rparr>)"
  by (simp add: captureAndAnalyze_begin_def captureAndAnalyze_blob_def snapshotBlob_def
      snapshotBlob_callback_def analyze_begin_def initial_client_def)

text \<open>
  C8. Whatever event makes the component send a new request (a chosen file,
  or the blob of a snapshot), the state it leaves has \<open>busy\<close> set, no error
  and no result image, and exactly one request more: what an earlier attempt
  left in \<open>error\<close> or \<open>resultImg\<close> is gone when the new attempt starts.
\<close>

theorem new_attempt_clears_error_and_result:
  assumes "step ops ev s = Some s'" and "posts s' \<noteq> posts s"
  shows "busy s' \<and> error s' = None \<and> resultImg s' = None \<and>
         (\<exists>blob. posts s' = posts s @ [blob])"
proof (cases ev)
  case StartCameraClick
  with assms show ?thesis
    by (auto simp: startCamera_begin_def split: if_splits)
next
  case (CameraSettled r)
  with assms show ?thesis
    by (auto simp: startCamera_settled_def split: if_splits option.splits)
next
  case (CaptureClick d)
  with assms show ?thesis
    by (auto simp: captureAndAnalyze_begin_def split: if_splits sum.splits)
next
  case (BlobDelivered b)
  with assms show ?thesis
    by (auto simp: captureAndAnalyze_blob_def snapshotBlob_callback_def analyze_begin_def
        split: if_splits option.splits)
next
  case (FileChosen f)
  with assms show ?thesis
    by (auto simp: onFileInput_def analyze_begin_def split: option.splits)
next
  case (FetchSettled r)
  with assms show ?thesis
    by (auto simp: analyze_fetched_def analyze_finally_def analyze_catch_def
        split: if_splits sum.splits)
next
  case (BodySettled r)
  with assms show ?thesis
    by (auto simp: analyze_parsed_def analyze_finally_def analyze_catch_def
        log_analysis_def show_result_def split: if_splits sum.splits option.splits)
qed

theorem new_attempt_clears_error_and_result_witness:
  "step sample_numbers (FileChosen (Some ''second.jpg''))
     (initial_client\<lparr>resultImg := Some ''data:image/jpeg;base64,Zm9v'',
                     error := Some ''Server error: 500'', posts := [''first.jpg'']\<rparr>) =
     Some (initial_client\<lparr>busy := True, posts := [''first.jpg'', ''second.jpg''],
                          fetching := 1\<rparr>) \<and>
   posts (initial_client\<lparr>busy := True, posts := [''first.jpg'', ''second.jpg''],
                         fetching := 1\<rparr> :: int client) \<noteq>
   posts (initial_client\<lparr>resultImg := Some ''data:image/jpeg;base64,Zm9v'',
                     error := Some ''Server error: 500'', posts := [''first.jpg'']\<rparr> :: int client) \<and>
   busy (initial_client\<lparr>busy := True, posts := [''first.jpg'', ''second.jpg''],
                         fetching := 1\<rparr> :: int client) \<and>
   error (initial_client\<lparr>busy := True, posts := [''first.jpg'', ''second.jpg''],
                         fetching := 1\<rparr> :: int client) = None \<and>
   resultImg (initial_client\<lparr>busy := True, posts := [''first.jpg'', ''second.jpg''],
                         fetching := 1\<rparr> :: int client) = None"
proof -
  let ?s = "initial_client\<lparr>resultImg := Some ''data:image/jpeg;base64,Zm9v'',
                     error := Some ''Server error: 500'', posts := [''first.jpg'']\<rparr> :: int client"
  let ?s' = "initial_client\<lparr>busy := True, posts := [''first.jpg'', ''second.jpg''],
                         fetching := 1\<rparr> :: int client"
  have st: "step sample_numbers (FileChosen (Some ''second.jpg'')) ?s = Some ?s'"
    by (simp add: onFileInput_def analyze_begin_def initial_client_def)
  have ne: "posts ?s' \<noteq> posts ?s"
    by (simp add: initial_client_def)
  show ?thesis
    using st ne new_attempt_clears_error_and_result [OF st ne]
    by simp
qed

text \<open>
  C9. For every response with a status from 200 to 299 whose body parses to a
  value without a \<open>reconstructed_base64\<close> member, a call of \<open>analyze\<close> that
  runs its three parts ends with no error, no result image and \<open>busy\<close>
  cleared; and in any state the last part leaves \<open>error\<close> and \<open>resultImg\<close>
  as they were.
\<close>

theorem missing_reconstruction_no_error_no_image:
  assumes "res_ok st" and "member data ''reconstructed_base64'' = None"
  shows "error (analyze_parsed ops (Inr data)
                  (analyze_fetched (Inr st) (analyze_begin blob s))) = None \<and>
         resultImg (analyze_parsed ops (Inr data)
                  (analyze_fetched (Inr st) (analyze_begin blob s))) = None \<and>
         \<not> busy (analyze_parsed ops (Inr data)
                  (analyze_fetched (Inr st) (analyze_begin blob s))) \<and>
         error (analyze_parsed ops (Inr data) t) = error t \<and>
         resultImg (analyze_parsed ops (Inr data) t) = resultImg t"
  using assms
  by (simp add: analyze_parsed_def analyze_fetched_def analyze_begin_def analyze_finally_def
      log_analysis_def show_result_def split: option.splits)

theorem missing_reconstruction_no_error_no_image_witness:
  "res_ok 200 \<and>
   member (JObj [(''analysis'', JObj [(''age'', JNum (31::int))])]) ''reconstructed_base64'' = None \<and>
   error (analyze_parsed sample_numbers (Inr (JObj [(''analysis'', JObj [(''age'', JNum 31)])]))
            (analyze_fetched (Inr 200) (analyze_begin ''frame'' initial_client))) = None \<and>
   resultImg (analyze_parsed sample_numbers (Inr (JObj [(''analysis'', JObj [(''age'', JNum 31)])]))
            (analyze_fetched (Inr 200) (analyze_begin ''frame'' initial_client))) = None"
proof -
  have ok: "res_ok 200" by (simp add: res_ok_def)
  have m: "member (JObj [(''analysis'', JObj [(''age'', JNum (31::int))])])
      ''reconstructed_base64'' = None"
    by simp
  show ?thesis
    using ok m
      missing_reconstruction_no_error_no_image [where ops = sample_numbers
        and blob = "''frame''" and s = initial_client and t = initial_client, OF ok m]
    by simp
qed

text \<open>
  C10. For every response whose status is outside 200 to 299, the part of
  \<open>analyze\<close> after \<open>await fetch\<close> sets \<open>error\<close> to \<open>Server error: \<close> followed by
  the status in decimal, clears \<open>busy\<close>, leaves \<open>resultImg\<close> as it was and
  does not call \<open>res.json()\<close>: the body of the response is not an input of
  this part and no read of it is under way after it.
\<close>

theorem non_ok_status_error_message:
  assumes "\<not> res_ok st"
  shows "error (analyze_fetched (Inr st) s) = Some (''Server error: '' @ decimal st) \<and>
         reading (analyze_fetched (Inr st) s) = reading s \<and>
         resultImg (analyze_fetched (Inr st) s) = resultImg s \<and>
         \<not> busy (analyze_fetched (Inr st) s)"
  using assms
  by (simp add: analyze_fetched_def analyze_catch_def analyze_finally_def)

theorem non_ok_status_error_message_witness:
  "\<not> res_ok 500 \<and>
   error (analyze_fetched (Inr 500) (analyze_begin ''frame'' (initial_client :: int client))) =
     Some ''Server error: 500'' \<and>
   reading (analyze_fetched (Inr 500) (analyze_begin ''frame'' (initial_client :: int client))) = 0"
proof -
  have n: "\<not> res_ok 500" by (simp add: res_ok_def)
  show ?thesis
    using n non_ok_status_error_message [OF n,
        of "analyze_begin ''frame'' (initial_client :: int client)"]
    by (simp add: decimal_500 analyze_begin_def initial_client_def)
qed

end
